theory Spec2Isabelle
  imports Main
begin

section \<open>Data model of controllers/authController.js\<close>

text \<open>
  A user document as the controller reads and writes it. A field that JavaScript may
  find \<^verbatim>\<open>undefined\<close> is an option. \<open>passwordChangedAt\<close> and
  \<open>passwordResetExpires\<close> are dates, in milliseconds as \<^verbatim>\<open>Date.now()\<close> counts.
\<close>

record user =
  user_id :: string
  name :: string
  email :: string
  role :: string
  password :: "string option"
  passwordConfirm :: "string option"
  passwordChangedAt :: "int option"
  passwordResetToken :: "string option"
  passwordResetExpires :: "int option"

text \<open>The payload \<^verbatim>\<open>jwt.verify\<close> decodes: \<^verbatim>\<open>{ id, iat, exp }\<close>, \<open>iat\<close> in seconds.\<close>

record decoded =
  decoded_id :: string
  iat :: int

text \<open>
  A cookie set by \<^verbatim>\<open>res.cookie(name, value, options)\<close>. The option \<open>secure\<close> is
  \<open>None\<close> when the options object has no such property.
\<close>

record cookie =
  cookie_name :: string
  cookie_value :: string
  expires :: int
  httpOnly :: bool
  secure :: "bool option"

text \<open>The three JSON bodies the controller sends.\<close>

datatype json_body =
  UserBody string string user
| StatusBody string
| MessageBody string string

record response =
  cookies_set :: "cookie list"
  locals_user :: "user option"
  statusCode :: "nat option"
  body :: "json_body option"

text \<open>
  The object \<^verbatim>\<open>req.cookies\<close> that cookie-parser builds, with its \<^verbatim>\<open>jwt\<close> property.
\<close>

record req_cookies =
  jwt :: "string option"

text \<open>
  The parts of an Express request the controller reads. \<open>cookies\<close> is
  \<^verbatim>\<open>req.cookies\<close>: \<open>None\<close> while it is \<^verbatim>\<open>undefined\<close>, which it is on a request that
  passed no cookie-parser. The controller's closing comment asks for cookie-parser in
  app.js; the app.js of the sources installs none. Body fields are strings or absent.
\<close>

record request =
  authorization :: "string option"
  cookies :: "req_cookies option"
  body_name :: "string option"
  body_email :: "string option"
  body_password :: "string option"
  body_passwordConfirm :: "string option"
  body_passwordCurrent :: "string option"
  params_token :: string
  protocol :: string
  host :: string
  req_user :: "user option"

text \<open>
  Modelled from the spec: utils/appError.js is not among the sources. An \<open>AppError\<close> is
  the structured error value of the spec (message and status code); the status code is
  \<open>None\<close> when the constructor is called with the message alone. \<open>Thrown\<close> is an
  exception of a collaborator (token library, persistence layer, hasher), by its name.
\<close>

datatype error =
  AppError string "nat option"
| Thrown string

text \<open>
  How a middleware ends: \<^verbatim>\<open>next()\<close>, \<^verbatim>\<open>next(err)\<close>, a response sent with
  \<^verbatim>\<open>res.status(..).json(..)\<close>, or, for an async handler that throws outside a
  \<^verbatim>\<open>try\<close> and is not wrapped in \<^verbatim>\<open>catchAsync\<close>, a rejected promise that nobody
  handles: \<^verbatim>\<open>next\<close> is never called and nothing is sent.
\<close>

datatype outcome = Next | NextErr error | Sent | Unhandled string

record mail =
  mail_to :: string
  subject :: string
  message :: string

text \<open>
  The configuration read from \<^verbatim>\<open>process.env\<close> and the collaborators whose code is
  outside the repository's controller: the token library (\<^verbatim>\<open>jwt.sign\<close> and
  \<^verbatim>\<open>jwt.verify\<close> with the secret and lifetime folded in, the first argument being the
  clock), bcrypt, sha256, the random source, the mailer (\<open>True\<close> when delivery succeeds,
  \<open>False\<close> when it throws), the schema's validators (\<open>Some\<close> message when a document
  is refused), \<^verbatim>\<open>User.create\<close> on the four fields \<open>signup\<close> hands it (name, email,
  password, passwordConfirm), and the directory's answer to a filter whose email is
  \<^verbatim>\<open>undefined\<close>.
\<close>

record env =
  NODE_ENV :: string
  JWT_COOKIE_EXPIRES_IN :: int
  jwt_sign :: "int \<Rightarrow> string \<Rightarrow> string"
  jwt_verify :: "int \<Rightarrow> string \<Rightarrow> string + decoded"
  bcrypt_compare :: "string \<Rightarrow> string \<Rightarrow> bool"
  bcrypt_hash :: "string \<Rightarrow> string"
  sha256 :: "string \<Rightarrow> string"
  randomBytes :: string
  sendEmail :: "mail \<Rightarrow> bool"
  schema_validate :: "user \<Rightarrow> string option"
  User_create :: "int \<Rightarrow> string option \<Rightarrow> string option \<Rightarrow> string option \<Rightarrow> string option \<Rightarrow>
                  user list \<Rightarrow> string + (user \<times> user list)"
  findOne_no_email :: "user list \<Rightarrow> user option"

text \<open>What one request works on: the user collection, the request and the response.\<close>

record world =
  users :: "user list"
  req :: request
  res :: response

section \<open>JavaScript helpers\<close>

text \<open>A string value is truthy when it is defined and not empty.\<close>

definition truthy :: "string option \<Rightarrow> bool" where
  "truthy v = (case v of None \<Rightarrow> False | Some s \<Rightarrow> s \<noteq> [])"

definition startsWith :: "string \<Rightarrow> string \<Rightarrow> bool" where
  "startsWith s p = (take (length p) s = p)"

text \<open>\<^verbatim>\<open>s.split(c)\<close> for a one-character separator: never the empty array.\<close>

fun str_split :: "char \<Rightarrow> string \<Rightarrow> string list" where
  "str_split c [] = [[]]"
| "str_split c (x # xs) =
     (if x = c then [] # str_split c xs
      else (case str_split c xs of [] \<Rightarrow> [[x]] | w # ws \<Rightarrow> (x # w) # ws))"

text \<open>\<^verbatim>\<open>xs[i]\<close>: \<^verbatim>\<open>undefined\<close> out of range.\<close>

definition index :: "'a list \<Rightarrow> nat \<Rightarrow> 'a option" where
  "index xs i = (if i < length xs then Some (xs ! i) else None)"

section \<open>The user directory\<close>

text \<open>
  The default projection of a query leaves the password out (the spec's persistence
  contract); \<^verbatim>\<open>.select('+password')\<close> keeps it.
\<close>

definition hide_password :: "user \<Rightarrow> user" where
  "hide_password u = u\<lparr>password := None\<rparr>"

definition findOne :: "(user \<Rightarrow> bool) \<Rightarrow> user list \<Rightarrow> user option" where
  "findOne f db = map_option hide_password (find f db)"

definition findOne_select_password :: "(user \<Rightarrow> bool) \<Rightarrow> user list \<Rightarrow> user option" where
  "findOne_select_password f db = find f db"

definition findById :: "string \<Rightarrow> user list \<Rightarrow> user option" where
  "findById i db = findOne (\<lambda>u. user_id u = i) db"

definition findById_select_password :: "string \<Rightarrow> user list \<Rightarrow> user option" where
  "findById_select_password i db = findOne_select_password (\<lambda>u. user_id u = i) db"

text \<open>
  The filter of \<^verbatim>\<open>resetPassword\<close>:
  \<^verbatim>\<open>{ passwordResetToken: hashedToken, passwordResetExpires: { $gt: Date.now() } }\<close>.
\<close>

definition reset_filter :: "string \<Rightarrow> int \<Rightarrow> user \<Rightarrow> bool" where
  "reset_filter hashedToken now u =
     (passwordResetToken u = Some hashedToken \<and>
      (case passwordResetExpires u of None \<Rightarrow> False | Some t \<Rightarrow> now < t))"

text \<open>
  Modelled from the spec: the pre-save hook of models/userModel.js is not among the
  sources. Setting a new password "triggers re-hash and password-changed timestamp
  update".
\<close>

definition preSave :: "env \<Rightarrow> int \<Rightarrow> bool \<Rightarrow> user \<Rightarrow> user" where
  "preSave env now passwordModified u =
     (if passwordModified then
        (case password u of
           None \<Rightarrow> u
         | Some p \<Rightarrow> u\<lparr>password := Some (bcrypt_hash env p), passwordChangedAt := Some now\<rparr>)
      else u)"

text \<open>
  \<^verbatim>\<open>doc.save({ validateBeforeSave })\<close>. The document remembers what it was loaded as:
  \<open>loaded\<close> is the document as the query returned it, \<open>doc\<close> the document after the
  handler's assignments, and the password path is modified when the two differ there. A
  refused document throws and nothing is written. Otherwise the hook runs and the stored
  document of the same id is replaced, its password kept where the path is unmodified.
\<close>

definition persist :: "bool \<Rightarrow> user \<Rightarrow> user \<Rightarrow> user" where
  "persist passwordModified doc stored =
     (if user_id stored = user_id doc
      then (if passwordModified then doc else doc\<lparr>password := password stored\<rparr>)
      else stored)"

definition save :: "env \<Rightarrow> bool \<Rightarrow> int \<Rightarrow> user \<Rightarrow> user \<Rightarrow> user list \<Rightarrow> string + (user \<times> user list)" where
  "save env validateBeforeSave now loaded doc db =
     (case (if validateBeforeSave then schema_validate env doc else None) of
        Some msg \<Rightarrow> Inl msg
      | None \<Rightarrow>
          (let modified = (password doc \<noteq> password loaded);
               doc' = preSave env now modified doc
           in Inr (doc', map (persist modified doc') db)))"

text \<open>
  Modelled from the spec: \<^verbatim>\<open>correctPassword\<close> of models/userModel.js is not among the
  sources. It is the Credential Hasher's "verify(plaintext, verifier)", played by the
  collaborator \<open>bcrypt_compare\<close>; the comparison throws when either argument is
  missing.
\<close>

definition correctPassword :: "env \<Rightarrow> string option \<Rightarrow> string option \<Rightarrow> string + bool" where
  "correctPassword env candidate userPassword =
     (case (candidate, userPassword) of
        (Some c, Some h) \<Rightarrow> Inr (bcrypt_compare env c h)
      | _ \<Rightarrow> Inl ''Error'')"

text \<open>
  Modelled from the spec: \<^verbatim>\<open>changedPasswordAfter\<close> of models/userModel.js is not among
  the sources. "Compare identity's password-changed timestamp against the token's
  issued-at timestamp; if password was changed after issuance" the token is stale. The
  date is brought to whole seconds, the unit of \<open>iat\<close>.
\<close>

definition changedPasswordAfter :: "user \<Rightarrow> int \<Rightarrow> bool" where
  "changedPasswordAfter u JWTTimestamp =
     (case passwordChangedAt u of
        None \<Rightarrow> False
      | Some t \<Rightarrow> JWTTimestamp < t div 1000)"

text \<open>
  Modelled from the spec: \<^verbatim>\<open>createPasswordResetToken\<close> of models/userModel.js is not
  among the sources. It "produces a cryptographically random raw value; persists only
  its one-way hash and an expiry (now + 10 minutes) on the identity record; returns the
  raw value".
\<close>

definition createPasswordResetToken :: "env \<Rightarrow> int \<Rightarrow> user \<Rightarrow> string \<times> user" where
  "createPasswordResetToken env now u =
     (randomBytes env,
      u\<lparr>passwordResetToken := Some (sha256 env (randomBytes env)),
        passwordResetExpires := Some (now + 10 * 60 * 1000)\<rparr>)"

section \<open>The controller\<close>

definition signToken :: "env \<Rightarrow> int \<Rightarrow> string \<Rightarrow> string" where
  "signToken env now i = jwt_sign env now i"

definition res_cookie :: "cookie \<Rightarrow> response \<Rightarrow> response" where
  "res_cookie c r = r\<lparr>cookies_set := cookies_set r @ [c]\<rparr>"

definition res_json :: "nat \<Rightarrow> json_body \<Rightarrow> response \<Rightarrow> response" where
  "res_json code b r = r\<lparr>statusCode := Some code, body := Some b\<rparr>"

definition createSendToken :: "env \<Rightarrow> int \<Rightarrow> user \<Rightarrow> nat \<Rightarrow> world \<Rightarrow> world \<times> outcome" where
  "createSendToken env now u code w =
     (let token = signToken env now (user_id u);
          cookieOptions = \<lparr>cookie_name = ''jwt'', cookie_value = token,
             expires = now + JWT_COOKIE_EXPIRES_IN env * 24 * 60 * 60 * 1000,
             httpOnly = True,
             secure = (if NODE_ENV env = ''production'' then Some True else None)\<rparr>;
          res1 = res_cookie cookieOptions (res w);
          u' = u\<lparr>password := None\<rparr>
      in (w\<lparr>res := res_json code (UserBody ''success'' token u') res1\<rparr>, Sent))"

text \<open>
  Modelled from the spec: utils/catchAsync.js is not among the sources. "All
  handler-level failures are funneled to a single centralized error responder": an
  exception thrown inside a wrapped handler reaches \<^verbatim>\<open>next\<close>.
\<close>

definition rejected :: "world \<Rightarrow> string \<Rightarrow> world \<times> outcome" where
  "rejected w e = (w, NextErr (Thrown e))"

definition signup :: "env \<Rightarrow> int \<Rightarrow> world \<Rightarrow> world \<times> outcome" where
  "signup env now w =
     (case User_create env now (body_name (req w)) (body_email (req w)) (body_password (req w))
             (body_passwordConfirm (req w)) (users w) of
        Inl e \<Rightarrow> rejected w e
      | Inr (newUser, db') \<Rightarrow> createSendToken env now newUser 201 (w\<lparr>users := db'\<rparr>))"

definition login :: "env \<Rightarrow> int \<Rightarrow> world \<Rightarrow> world \<times> outcome" where
  "login env now w =
     (if \<not> truthy (body_email (req w)) \<or> \<not> truthy (body_password (req w))
      then (w, NextErr (AppError ''Please provide email and password!'' (Some 400)))
      else
        (case findOne_select_password (\<lambda>u. Some (email u) = body_email (req w)) (users w) of
           None \<Rightarrow> (w, NextErr (AppError ''Incorrect email or password'' (Some 401)))
         | Some u \<Rightarrow>
             (case correctPassword env (body_password (req w)) (password u) of
                Inl e \<Rightarrow> rejected w e
              | Inr ok \<Rightarrow>
                  if \<not> ok
                  then (w, NextErr (AppError ''Incorrect email or password'' (Some 401)))
                  else createSendToken env now u 200 w)))"

definition logout :: "int \<Rightarrow> world \<Rightarrow> world \<times> outcome" where
  "logout now w =
     (let res1 = res_cookie \<lparr>cookie_name = ''jwt'', cookie_value = ''loggedout'',
                   expires = now + 10 * 1000, httpOnly = True, secure = None\<rparr> (res w)
      in (w\<lparr>res := res_json 200 (StatusBody ''success'') res1\<rparr>, Sent))"

text \<open>
  Lines 102 to 110 of \<^verbatim>\<open>protect\<close>: the token, \<open>Inr None\<close> while it is \<^verbatim>\<open>undefined\<close>.
  The \<^verbatim>\<open>else if\<close> of line 108 reads \<^verbatim>\<open>req.cookies.jwt\<close>, which throws a TypeError
  (\<open>Inl\<close>) when \<^verbatim>\<open>req.cookies\<close> is \<^verbatim>\<open>undefined\<close>; the header branch never reads it.
\<close>

definition protect_token :: "request \<Rightarrow> string + string option" where
  "protect_token r =
     (if truthy (authorization r) \<and> startsWith (case authorization r of Some h \<Rightarrow> h | None \<Rightarrow> []) ''Bearer''
      then Inr (index (str_split CHR '' '' (case authorization r of Some h \<Rightarrow> h | None \<Rightarrow> [])) 1)
      else
        (case cookies r of
           None \<Rightarrow> Inl ''TypeError''
         | Some c \<Rightarrow> if truthy (jwt c) then Inr (jwt c) else Inr None))"

text \<open>\<^verbatim>\<open>protect\<close> is wrapped in \<^verbatim>\<open>catchAsync\<close>: what it throws reaches \<^verbatim>\<open>next\<close>.\<close>

definition protect :: "env \<Rightarrow> int \<Rightarrow> world \<Rightarrow> world \<times> outcome" where
  "protect env now w =
     (case protect_token (req w) of
        Inl e \<Rightarrow> rejected w e
      | Inr token \<Rightarrow>
          if \<not> truthy token
          then (w, NextErr (AppError ''You are not logged in! Please log in to get access.'' (Some 401)))
          else
            (case jwt_verify env now (case token of Some t \<Rightarrow> t | None \<Rightarrow> []) of
               Inl e \<Rightarrow> rejected w e
             | Inr d \<Rightarrow>
                 (case findById (decoded_id d) (users w) of
                    None \<Rightarrow>
                      (w, NextErr (AppError ''The user belonging to this token does no longer exist.'' (Some 401)))
                  | Some currentUser \<Rightarrow>
                      if changedPasswordAfter currentUser (iat d)
                      then (w, NextErr (AppError ''User recently changed password! Please log in again.'' (Some 401)))
                      else (w\<lparr>req := (req w)\<lparr>req_user := Some currentUser\<rparr>,
                              res := (res w)\<lparr>locals_user := Some currentUser\<rparr>\<rparr>, Next))))"

text \<open>
  The soft gate. Its \<^verbatim>\<open>try\<close> block turns every exception inside it into
  \<^verbatim>\<open>next()\<close>. The read of \<^verbatim>\<open>req.cookies.jwt\<close> at line 153 stands before the
  \<^verbatim>\<open>try\<close>, and the handler is a bare async function, not wrapped in
  \<^verbatim>\<open>catchAsync\<close>: with \<^verbatim>\<open>req.cookies\<close> \<^verbatim>\<open>undefined\<close> the TypeError rejects the
  promise and \<^verbatim>\<open>next\<close> is never called.
\<close>

definition isLoggedIn :: "env \<Rightarrow> int \<Rightarrow> world \<Rightarrow> world \<times> outcome" where
  "isLoggedIn env now w =
     (case cookies (req w) of
        None \<Rightarrow> (w, Unhandled ''TypeError'')
      | Some c \<Rightarrow>
          if truthy (jwt c) then
            (case jwt_verify env now (case jwt c of Some t \<Rightarrow> t | None \<Rightarrow> []) of
               Inl e \<Rightarrow> (w, Next)
             | Inr d \<Rightarrow>
                 (case findById (decoded_id d) (users w) of
                    None \<Rightarrow> (w, Next)
                  | Some currentUser \<Rightarrow>
                      if changedPasswordAfter currentUser (iat d) then (w, Next)
                      else (w\<lparr>res := (res w)\<lparr>locals_user := Some currentUser\<rparr>\<rparr>, Next)))
          else (w, Next))"

text \<open>
  \<^verbatim>\<open>restrictTo(...roles)\<close> returns the middleware. Reading \<^verbatim>\<open>req.user.role\<close> with no
  user attached throws, which Express hands to \<^verbatim>\<open>next\<close>.
\<close>

definition restrictTo :: "string list \<Rightarrow> world \<Rightarrow> world \<times> outcome" where
  "restrictTo roles w =
     (case req_user (req w) of
        None \<Rightarrow> rejected w ''TypeError''
      | Some u \<Rightarrow>
          if role u \<notin> set roles
          then (w, NextErr (AppError ''You do not have permission to perform this action'' (Some 403)))
          else (w, Next))"

definition forgotPassword :: "env \<Rightarrow> int \<Rightarrow> world \<Rightarrow> world \<times> outcome" where
  "forgotPassword env now w =
     (case (case body_email (req w) of
              None \<Rightarrow> map_option hide_password (findOne_no_email env (users w))
            | Some e \<Rightarrow> findOne (\<lambda>u. email u = e) (users w)) of
        None \<Rightarrow> (w, NextErr (AppError ''There is no user with email address.'' (Some 404)))
      | Some u \<Rightarrow>
          (let (resetToken, u1) = createPasswordResetToken env now u in
           case save env False now u u1 (users w) of
             Inl e \<Rightarrow> rejected w e
           | Inr (u2, db1) \<Rightarrow>
               (let resetURL = protocol (req w) @ ''://'' @ host (req w) @
                      ''/api/v1/users/resetPassword/'' @ resetToken;
                    msg = ''Forgot your password? Submit a PATCH request with your new password and passwordConfirm to: '' @
                      resetURL @ [CHR ''.'', CHR 0x0A] @
                      ''If you didn't forget your password, please ignore this email!''
                in if sendEmail env \<lparr>mail_to = email u2,
                        subject = ''Your password reset token (valid for 10 min)'', message = msg\<rparr>
                   then (w\<lparr>users := db1,
                           res := res_json 200 (MessageBody ''success'' ''Token sent to email!'') (res w)\<rparr>, Sent)
                   else
                     (let u3 = u2\<lparr>passwordResetToken := None, passwordResetExpires := None\<rparr> in
                      case save env False now u2 u3 db1 of
                        Inl e \<Rightarrow> rejected (w\<lparr>users := db1\<rparr>) e
                      | Inr (u4, db2) \<Rightarrow>
                          (w\<lparr>users := db2\<rparr>,
                           NextErr (AppError ''There was an error sending the email. Try again later!'' None))))))"

definition resetPassword :: "env \<Rightarrow> int \<Rightarrow> world \<Rightarrow> world \<times> outcome" where
  "resetPassword env now w =
     (let hashedToken = sha256 env (params_token (req w)) in
      case findOne (reset_filter hashedToken now) (users w) of
        None \<Rightarrow> (w, NextErr (AppError ''Token is invalid or has expired'' (Some 400)))
      | Some u \<Rightarrow>
          (let u1 = u\<lparr>password := body_password (req w),
                      passwordConfirm := body_passwordConfirm (req w),
                      passwordResetToken := None,
                      passwordResetExpires := None\<rparr> in
           case save env True now u u1 (users w) of
             Inl e \<Rightarrow> rejected w e
           | Inr (u2, db1) \<Rightarrow> createSendToken env now u2 200 (w\<lparr>users := db1\<rparr>)))"

definition updatePassword :: "env \<Rightarrow> int \<Rightarrow> world \<Rightarrow> world \<times> outcome" where
  "updatePassword env now w =
     (case req_user (req w) of
        None \<Rightarrow> rejected w ''TypeError''
      | Some ru \<Rightarrow>
          (case findById_select_password (user_id ru) (users w) of
             None \<Rightarrow> rejected w ''TypeError''
           | Some u \<Rightarrow>
               (case correctPassword env (body_passwordCurrent (req w)) (password u) of
                  Inl e \<Rightarrow> rejected w e
                | Inr ok \<Rightarrow>
                    if \<not> ok
                    then (w, NextErr (AppError ''Your current password is wrong.'' (Some 401)))
                    else
                      (let u1 = u\<lparr>password := body_password (req w),
                                  passwordConfirm := body_passwordConfirm (req w)\<rparr> in
                       case save env True now u u1 (users w) of
                         Inl e \<Rightarrow> rejected w e
                       | Inr (u2, db1) \<Rightarrow> createSendToken env now u2 200 (w\<lparr>users := db1\<rparr>)))))"


section \<open>A concrete deployment\<close>

text \<open>
  Two stored users, a configuration and a request (one that passed cookie-parser and
  carried no cookie) on which the model is run. The token
  library is played by a prefix: \<open>tok:\<close> followed by the user's id, issued at second
  1000. The mailer of this deployment always fails.
\<close>

definition demo_user :: user where
  "demo_user = \<lparr>user_id = ''u1'', name = ''Ann'', email = ''ann@example.com'', role = ''user'',
     password = Some ''hash:secret'', passwordConfirm = None, passwordChangedAt = None,
     passwordResetToken = None, passwordResetExpires = None\<rparr>"

definition demo_admin :: user where
  "demo_admin = \<lparr>user_id = ''u2'', name = ''Bob'', email = ''bob@example.com'', role = ''admin'',
     password = Some ''hash:hunter2'', passwordConfirm = None, passwordChangedAt = Some 5000000,
     passwordResetToken = Some ''sha:r4nd0m'', passwordResetExpires = Some 9000\<rparr>"

definition demo_env :: env where
  "demo_env = \<lparr>NODE_ENV = ''production'', JWT_COOKIE_EXPIRES_IN = 90,
     jwt_sign = (\<lambda>now i. ''tok:'' @ i),
     jwt_verify = (\<lambda>now t. if take 4 t = ''tok:'' then Inr \<lparr>decoded_id = drop 4 t, iat = 1000\<rparr>
                            else Inl ''JsonWebTokenError''),
     bcrypt_compare = (\<lambda>c h. h = ''hash:'' @ c),
     bcrypt_hash = (\<lambda>p. ''hash:'' @ p),
     sha256 = (\<lambda>s. ''sha:'' @ s),
     randomBytes = ''r4nd0m'',
     sendEmail = (\<lambda>m. False),
     schema_validate = (\<lambda>u. None),
     User_create = (\<lambda>now n e p c db. Inl ''ValidationError''),
     findOne_no_email = (\<lambda>db. None)\<rparr>"

definition demo_req :: request where
  "demo_req = \<lparr>authorization = None, cookies = Some \<lparr>jwt = None\<rparr>, body_name = None, body_email = None,
     body_password = None, body_passwordConfirm = None, body_passwordCurrent = None,
     params_token = [], protocol = ''https'', host = ''tours.example'', req_user = None\<rparr>"

definition demo_res :: response where
  "demo_res = \<lparr>cookies_set = [], locals_user = None, statusCode = None, body = None\<rparr>"

definition demo_world :: world where
  "demo_world = \<lparr>users = [demo_user, demo_admin], req = demo_req, res = demo_res\<rparr>"

section \<open>Auxiliary facts\<close>

lemma str_split_no_sep: "c \<notin> set s \<Longrightarrow> str_split c s = [s]"
  by (induction s) auto

lemma protect_not_truthy:
  "protect_token (req w) = Inr t \<Longrightarrow> \<not> truthy t \<Longrightarrow>
   protect env now w =
     (w, NextErr (AppError ''You are not logged in! Please log in to get access.'' (Some 401)))"
  by (simp add: protect_def)

lemma createSendToken_sent:
  "createSendToken env now u code w =
     (w\<lparr>res := (res w)\<lparr>cookies_set := cookies_set (res w) @
              [\<lparr>cookie_name = ''jwt'', cookie_value = signToken env now (user_id u),
                expires = now + JWT_COOKIE_EXPIRES_IN env * 24 * 60 * 60 * 1000,
                httpOnly = True,
                secure = (if NODE_ENV env = ''production'' then Some True else None)\<rparr>],
            statusCode := Some code,
            body := Some (UserBody ''success'' (signToken env now (user_id u)) (u\<lparr>password := None\<rparr>))\<rparr>\<rparr>,
      Sent)"
  by (simp add: createSendToken_def res_cookie_def res_json_def Let_def)

lemma save_unvalidated:
  "save env False now loaded doc db =
     Inr (preSave env now (password doc \<noteq> password loaded) doc,
          map (persist (password doc \<noteq> password loaded)
                 (preSave env now (password doc \<noteq> password loaded) doc)) db)"
  by (simp add: save_def Let_def)

lemma persist_reset_fields:
  assumes "v \<in> set (map (persist m doc) db)" and "user_id v = user_id doc"
  shows "passwordResetToken v = passwordResetToken doc \<and>
         passwordResetExpires v = passwordResetExpires doc"
  using assms by (auto simp: persist_def split: if_splits)

lemma persist_user_ids:
  "map user_id (map (persist m doc) db) = map user_id db"
  by (induction db) (auto simp: persist_def)



lemma preSave_keeps:
  "user_id (preSave env now m u) = user_id u"
  "passwordResetToken (preSave env now m u) = passwordResetToken u"
  "passwordResetExpires (preSave env now m u) = passwordResetExpires u"
  by (simp_all add: preSave_def split: option.split)





lemma isLoggedIn_ignores_header:
  "isLoggedIn env now (w\<lparr>req := (req w)\<lparr>authorization := a\<rparr>\<rparr>) =
     (case isLoggedIn env now w of (w', out) \<Rightarrow> (w'\<lparr>req := (req w')\<lparr>authorization := a\<rparr>\<rparr>, out))"
  by (simp add: isLoggedIn_def split: sum.split option.split)

lemma find_persist:
  "find (\<lambda>x. user_id x = i) (map (persist m doc) db) =
     map_option (persist m doc) (find (\<lambda>x. user_id x = i) db)"
  by (induction db) (auto simp: persist_def)

lemma protect_stale:
  assumes "protect_token (req w) = Inr (Some tok)" and "tok \<noteq> []"
    and "jwt_verify env now tok = Inr d"
    and "findById (decoded_id d) (users w) = Some u"
    and "passwordChangedAt u = Some t"
    and "iat d < t div 1000"
  shows "protect env now w =
           (w, NextErr (AppError ''User recently changed password! Please log in again.'' (Some 401)))"
  using assms by (simp add: protect_def truthy_def changedPasswordAfter_def)

lemma updatePassword_changes_timestamp:
  assumes ru: "req_user (req w0) = Some ru"
    and p: "body_password (req w0) = Some p"
    and sent: "snd (updatePassword env t0 w0) = Sent"
    and u0: "findById_select_password (user_id ru) (users w0) = Some u0"
    and diff: "password u0 \<noteq> Some p"
  shows "\<exists>u. findById (user_id ru) (users (fst (updatePassword env t0 w0))) = Some u \<and>
             passwordChangedAt u = Some t0"
proof -
  define u1 where "u1 = u0\<lparr>password := Some p, passwordConfirm := body_passwordConfirm (req w0)\<rparr>"
  define doc where "doc = preSave env t0 True u1"
  have f: "find (\<lambda>x. user_id x = user_id ru) (users w0) = Some u0"
    using u0 by (simp add: findById_select_password_def findOne_select_password_def)
  then have id0: "user_id u0 = user_id ru"
    by (auto simp: find_Some_iff)
  have m: "(Some p \<noteq> password u0) = True"
    using diff by auto
  from sent have run: "updatePassword env t0 w0 =
      createSendToken env t0 doc 200 (w0\<lparr>users := map (persist True doc) (users w0)\<rparr>)"
    using ru p u0 m
    by (simp add: updatePassword_def save_def rejected_def Let_def u1_def doc_def
          split: sum.splits option.splits if_splits)
  have db: "users (fst (updatePassword env t0 w0)) = map (persist True doc) (users w0)"
    by (simp add: run createSendToken_sent)
  have iddoc: "user_id doc = user_id ru"
    by (simp add: doc_def preSave_keeps u1_def id0)
  have "findById (user_id ru) (map (persist True doc) (users w0)) = Some (hide_password doc)"
    by (simp add: findById_def findOne_def find_persist f persist_def id0 iddoc)
  moreover have "passwordChangedAt (hide_password doc) = Some t0"
    by (simp add: hide_password_def doc_def preSave_def u1_def)
  ultimately show ?thesis
    unfolding db by blast
qed

section \<open>The claims\<close>

subsection \<open>Login failures\<close>

text \<open>
  Claim C1. For every login request that supplies an email and a password, if the email
  matches no identity, or the identity found has a stored verifier that the Credential
  Hasher does not accept for the supplied password, \<open>login\<close> ends in the same error:
  status 401 with the message "Incorrect email or password", and the response and the
  directory are untouched. The error is one fixed value, so two failing requests cannot
  be told apart by it.
\<close>

theorem login_failure_indistinguishable:
  assumes "truthy (body_email (req w))" and "truthy (body_password (req w))"
    and "(\<forall>u \<in> set (users w). Some (email u) \<noteq> body_email (req w)) \<or>
         (\<exists>u c h. findOne_select_password (\<lambda>u. Some (email u) = body_email (req w)) (users w) = Some u \<and>
                  body_password (req w) = Some c \<and> password u = Some h \<and> \<not> bcrypt_compare env c h)"
  shows "login env now w = (w, NextErr (AppError ''Incorrect email or password'' (Some 401)))"
  using assms(3)
proof
  assume "\<forall>u \<in> set (users w). Some (email u) \<noteq> body_email (req w)"
  then have "findOne_select_password (\<lambda>u. Some (email u) = body_email (req w)) (users w) = None"
    by (simp add: findOne_select_password_def find_None_iff)
  with assms(1,2) show ?thesis
    by (simp add: login_def)
next
  assume "\<exists>u c h. findOne_select_password (\<lambda>u. Some (email u) = body_email (req w)) (users w) = Some u \<and>
            body_password (req w) = Some c \<and> password u = Some h \<and> \<not> bcrypt_compare env c h"
  with assms(1,2) show ?thesis
    by (auto simp: login_def correctPassword_def)
qed

theorem login_failure_indistinguishable_witness:
  "login demo_env 0 (demo_world\<lparr>req := demo_req\<lparr>body_email := Some ''eve@example.com'',
                                                 body_password := Some ''secret''\<rparr>\<rparr>) =
     (demo_world\<lparr>req := demo_req\<lparr>body_email := Some ''eve@example.com'',
                                   body_password := Some ''secret''\<rparr>\<rparr>,
      NextErr (AppError ''Incorrect email or password'' (Some 401))) \<and>
   snd (login demo_env 0 (demo_world\<lparr>req := demo_req\<lparr>body_email := Some ''ann@example.com'',
                                                      body_password := Some ''wrong''\<rparr>\<rparr>)) =
   snd (login demo_env 0 (demo_world\<lparr>req := demo_req\<lparr>body_email := Some ''eve@example.com'',
                                                      body_password := Some ''secret''\<rparr>\<rparr>))"
  using login_failure_indistinguishable
          [of "demo_world\<lparr>req := demo_req\<lparr>body_email := Some ''eve@example.com'',
                                             body_password := Some ''secret''\<rparr>\<rparr>" demo_env 0]
        login_failure_indistinguishable
          [of "demo_world\<lparr>req := demo_req\<lparr>body_email := Some ''ann@example.com'',
                                             body_password := Some ''wrong''\<rparr>\<rparr>" demo_env 0]
  by (simp add: demo_world_def demo_req_def demo_env_def demo_user_def demo_admin_def truthy_def
        findOne_select_password_def)

subsection \<open>Delivery failure in forgotPassword\<close>

text \<open>
  Claim C2, as the code has it. For a known email and a mailer that throws,
  \<open>forgotPassword\<close> clears the stored reset-token hash and its expiry on the identity
  before it fails. The error it hands to \<^verbatim>\<open>next\<close> is an \<open>AppError\<close> built from the
  message alone: the 500 is written as a second argument of \<^verbatim>\<open>next\<close>, not of the
  constructor, so the error carries no status code.
\<close>

theorem forgotPassword_delivery_failure:
  assumes "body_email (req w) = Some e"
    and "findOne (\<lambda>u. email u = e) (users w) = Some u"
    and "\<forall>m. \<not> sendEmail env m"
  shows "snd (forgotPassword env now w) =
           NextErr (AppError ''There was an error sending the email. Try again later!'' None) \<and>
         (\<forall>v \<in> set (users (fst (forgotPassword env now w))).
            user_id v = user_id u \<longrightarrow>
              passwordResetToken v = None \<and> passwordResetExpires v = None) \<and>
         map user_id (users (fst (forgotPassword env now w))) = map user_id (users w)"
proof -
  define u1 where "u1 = snd (createPasswordResetToken env now u)"
  define u3 where "u3 = u1\<lparr>passwordResetToken := None, passwordResetExpires := None\<rparr>"
  define db2 where "db2 = map (persist False u3) (map (persist False u1) (users w))"
  have pw: "password u1 = password u" "user_id u1 = user_id u"
    by (simp_all add: u1_def createPasswordResetToken_def)
  have run: "forgotPassword env now w =
      (w\<lparr>users := db2\<rparr>,
       NextErr (AppError ''There was an error sending the email. Try again later!'' None))"
    using assms pw
    by (simp add: forgotPassword_def save_unvalidated preSave_def Let_def u3_def u1_def db2_def
          case_prod_beta)
  have cleared: "\<forall>v \<in> set db2.
          user_id v = user_id u \<longrightarrow> passwordResetToken v = None \<and> passwordResetExpires v = None"
  proof (intro ballI impI)
    fix v
    assume v: "v \<in> set db2" and i: "user_id v = user_id u"
    have "user_id v = user_id u3"
      using i pw by (simp add: u3_def)
    with v have "passwordResetToken v = passwordResetToken u3 \<and>
                 passwordResetExpires v = passwordResetExpires u3"
      unfolding db2_def by (rule persist_reset_fields)
    then show "passwordResetToken v = None \<and> passwordResetExpires v = None"
      by (simp add: u3_def)
  qed
  have ids: "map user_id db2 = map user_id (users w)"
    unfolding db2_def by (simp only: persist_user_ids)
  show ?thesis
    using cleared ids by (simp add: run)
qed

theorem forgotPassword_delivery_failure_witness:
  "snd (forgotPassword demo_env 0 (demo_world\<lparr>req := demo_req\<lparr>body_email := Some ''ann@example.com''\<rparr>\<rparr>)) =
     NextErr (AppError ''There was an error sending the email. Try again later!'' None) \<and>
   users (fst (forgotPassword demo_env 0 (demo_world\<lparr>req := demo_req\<lparr>body_email := Some ''ann@example.com''\<rparr>\<rparr>))) =
     [demo_user, demo_admin]"
proof -
  have "snd (forgotPassword demo_env 0 (demo_world\<lparr>req := demo_req\<lparr>body_email := Some ''ann@example.com''\<rparr>\<rparr>)) =
     NextErr (AppError ''There was an error sending the email. Try again later!'' None)"
    using forgotPassword_delivery_failure
            [of "demo_world\<lparr>req := demo_req\<lparr>body_email := Some ''ann@example.com''\<rparr>\<rparr>"
                "''ann@example.com''" "hide_password demo_user" demo_env 0, THEN conjunct1]
    by (simp add: findOne_def hide_password_def demo_world_def demo_req_def demo_env_def
          demo_user_def demo_admin_def)
  moreover
  have "users (fst (forgotPassword demo_env 0 (demo_world\<lparr>req := demo_req\<lparr>body_email := Some ''ann@example.com''\<rparr>\<rparr>))) =
     [demo_user, demo_admin]"
    by (simp add: forgotPassword_def save_unvalidated preSave_def persist_def Let_def
          createPasswordResetToken_def findOne_def hide_password_def demo_world_def demo_req_def
          demo_env_def demo_user_def demo_admin_def)
  ultimately show ?thesis by simp
qed

subsection \<open>Where the two gates look for the token\<close>

text \<open>
  Claim C3, as the code has it. \<open>protect\<close> takes the token from an Authorization header
  that starts with \<open>Bearer\<close> (its second space-separated part), whatever the cookies
  are; when the header is absent or does not start with \<open>Bearer\<close> and
  \<^verbatim>\<open>req.cookies\<close> exists, it takes the jwt cookie. Its outcome depends on the request
  through that extraction alone. \<open>isLoggedIn\<close> never reads the Authorization header:
  changing the header changes neither its outcome nor what it attaches. Where
  \<^verbatim>\<open>req.cookies\<close> exists, it proceeds anonymously when the jwt cookie is absent or
  empty, and otherwise resolves what \<open>protect\<close> would resolve from the jwt cookie with
  the header removed.
\<close>

theorem gates_token_extraction:
  "(\<forall>h. authorization (req w) = Some h \<and> startsWith h ''Bearer'' \<longrightarrow>
        protect_token (req w) = Inr (index (str_split CHR '' '' h) 1)) \<and>
   (authorization (req w) = None \<or>
    (\<exists>h. authorization (req w) = Some h \<and> \<not> startsWith h ''Bearer'') \<longrightarrow>
        (\<forall>c. cookies (req w) = Some c \<longrightarrow>
           protect_token (req w) = Inr (if truthy (jwt c) then jwt c else None))) \<and>
   (\<forall>w'. protect_token (req w') = protect_token (req w) \<and> users w' = users w \<longrightarrow>
        snd (protect env now w') = snd (protect env now w)) \<and>
   (\<forall>a. snd (isLoggedIn env now (w\<lparr>req := (req w)\<lparr>authorization := a\<rparr>\<rparr>)) =
          snd (isLoggedIn env now w) \<and>
        locals_user (res (fst (isLoggedIn env now (w\<lparr>req := (req w)\<lparr>authorization := a\<rparr>\<rparr>)))) =
          locals_user (res (fst (isLoggedIn env now w)))) \<and>
   (\<forall>c. cookies (req w) = Some c \<and> \<not> truthy (jwt c) \<longrightarrow> isLoggedIn env now w = (w, Next)) \<and>
   (\<forall>c. cookies (req w) = Some c \<and> truthy (jwt c) \<and>
        snd (protect env now (w\<lparr>req := (req w)\<lparr>authorization := None\<rparr>\<rparr>)) = Next \<longrightarrow>
        locals_user (res (fst (isLoggedIn env now w))) =
        req_user (req (fst (protect env now (w\<lparr>req := (req w)\<lparr>authorization := None\<rparr>\<rparr>)))))"
proof (intro conjI)
  show "\<forall>h. authorization (req w) = Some h \<and> startsWith h ''Bearer'' \<longrightarrow>
        protect_token (req w) = Inr (index (str_split CHR '' '' h) 1)"
    by (auto simp: protect_token_def truthy_def startsWith_def)
next
  show "authorization (req w) = None \<or>
    (\<exists>h. authorization (req w) = Some h \<and> \<not> startsWith h ''Bearer'') \<longrightarrow>
        (\<forall>c. cookies (req w) = Some c \<longrightarrow>
           protect_token (req w) = Inr (if truthy (jwt c) then jwt c else None))"
    by (auto simp: protect_token_def truthy_def)
next
  show "\<forall>w'. protect_token (req w') = protect_token (req w) \<and> users w' = users w \<longrightarrow>
        snd (protect env now w') = snd (protect env now w)"
    by (simp add: protect_def rejected_def split: sum.split option.split)
next
  show "\<forall>a. snd (isLoggedIn env now (w\<lparr>req := (req w)\<lparr>authorization := a\<rparr>\<rparr>)) =
          snd (isLoggedIn env now w) \<and>
        locals_user (res (fst (isLoggedIn env now (w\<lparr>req := (req w)\<lparr>authorization := a\<rparr>\<rparr>)))) =
          locals_user (res (fst (isLoggedIn env now w)))"
    by (simp add: isLoggedIn_ignores_header split: prod.split)
next
  show "\<forall>c. cookies (req w) = Some c \<and> \<not> truthy (jwt c) \<longrightarrow> isLoggedIn env now w = (w, Next)"
    by (simp add: isLoggedIn_def)
next
  show "\<forall>c. cookies (req w) = Some c \<and> truthy (jwt c) \<and>
        snd (protect env now (w\<lparr>req := (req w)\<lparr>authorization := None\<rparr>\<rparr>)) = Next \<longrightarrow>
        locals_user (res (fst (isLoggedIn env now w))) =
        req_user (req (fst (protect env now (w\<lparr>req := (req w)\<lparr>authorization := None\<rparr>\<rparr>))))"
  proof (intro allI impI, elim conjE)
    fix c
    assume c: "cookies (req w) = Some c" and t: "truthy (jwt c)"
      and p: "snd (protect env now (w\<lparr>req := (req w)\<lparr>authorization := None\<rparr>\<rparr>)) = Next"
    from c t have tok: "protect_token ((req w)\<lparr>authorization := None\<rparr>) = Inr (jwt c)"
      by (simp add: protect_token_def truthy_def)
    from p show "locals_user (res (fst (isLoggedIn env now w))) =
        req_user (req (fst (protect env now (w\<lparr>req := (req w)\<lparr>authorization := None\<rparr>\<rparr>))))"
      using c t tok
      by (auto simp: isLoggedIn_def protect_def rejected_def
            split: sum.splits option.splits if_splits)
  qed
qed

theorem gates_token_extraction_witness:
  "protect_token (demo_req\<lparr>authorization := Some ''Bearer tok:u1'', cookies := Some \<lparr>jwt = Some ''tok:u2''\<rparr>\<rparr>) =
     Inr (Some ''tok:u1'') \<and>
   protect_token (demo_req\<lparr>authorization := Some ''Basic abc'', cookies := Some \<lparr>jwt = Some ''tok:u2''\<rparr>\<rparr>) =
     Inr (Some ''tok:u2'') \<and>
   locals_user (res (fst (isLoggedIn demo_env 0
      (demo_world\<lparr>req := demo_req\<lparr>authorization := Some ''Bearer tok:u2'', cookies := Some \<lparr>jwt = Some ''tok:u1''\<rparr>\<rparr>\<rparr>)))) =
     Some (hide_password demo_user)"
proof (intro conjI)
  show "protect_token (demo_req\<lparr>authorization := Some ''Bearer tok:u1'', cookies := Some \<lparr>jwt = Some ''tok:u2''\<rparr>\<rparr>) =
     Inr (Some ''tok:u1'')"
    using gates_token_extraction
            [of "demo_world\<lparr>req := demo_req\<lparr>authorization := Some ''Bearer tok:u1'',
                                               cookies := Some \<lparr>jwt = Some ''tok:u2''\<rparr>\<rparr>\<rparr>" demo_env 0,
             THEN conjunct1]
    by (simp add: startsWith_def index_def demo_world_def demo_req_def)
next
  show "protect_token (demo_req\<lparr>authorization := Some ''Basic abc'', cookies := Some \<lparr>jwt = Some ''tok:u2''\<rparr>\<rparr>) =
     Inr (Some ''tok:u2'')"
    using gates_token_extraction
            [of "demo_world\<lparr>req := demo_req\<lparr>authorization := Some ''Basic abc'',
                                               cookies := Some \<lparr>jwt = Some ''tok:u2''\<rparr>\<rparr>\<rparr>" demo_env 0,
             THEN conjunct2, THEN conjunct1]
    by (simp add: startsWith_def truthy_def demo_world_def demo_req_def)
next
  show "locals_user (res (fst (isLoggedIn demo_env 0
      (demo_world\<lparr>req := demo_req\<lparr>authorization := Some ''Bearer tok:u2'', cookies := Some \<lparr>jwt = Some ''tok:u1''\<rparr>\<rparr>\<rparr>)))) =
     Some (hide_password demo_user)"
    using gates_token_extraction
            [of "demo_world\<lparr>req := demo_req\<lparr>authorization := Some ''Bearer tok:u2'',
                                               cookies := Some \<lparr>jwt = Some ''tok:u1''\<rparr>\<rparr>\<rparr>" demo_env 0,
             THEN conjunct2, THEN conjunct2, THEN conjunct2, THEN conjunct2, THEN conjunct2]
    by (simp add: protect_def protect_token_def truthy_def findById_def findOne_def
          hide_password_def changedPasswordAfter_def demo_world_def demo_req_def demo_res_def
          demo_env_def demo_user_def demo_admin_def)
qed

text \<open>
  The claim as stated, that both gates check the header first, fails on a request
  whose only token is a valid one in the Authorization header: \<open>protect\<close> attaches the
  identity and \<open>isLoggedIn\<close> attaches nothing, both on a request that passed
  cookie-parser and carried no cookie (it proceeds anonymously) and on one whose
  \<^verbatim>\<open>req.cookies\<close> is \<^verbatim>\<open>undefined\<close> (it throws).
\<close>

theorem gates_same_extraction_counterexample:
  "protect demo_env 0 (demo_world\<lparr>req := demo_req\<lparr>authorization := Some ''Bearer tok:u1''\<rparr>\<rparr>) =
     (demo_world\<lparr>req := demo_req\<lparr>authorization := Some ''Bearer tok:u1'',
                                   req_user := Some (hide_password demo_user)\<rparr>,
                 res := demo_res\<lparr>locals_user := Some (hide_password demo_user)\<rparr>\<rparr>, Next) \<and>
   isLoggedIn demo_env 0 (demo_world\<lparr>req := demo_req\<lparr>authorization := Some ''Bearer tok:u1''\<rparr>\<rparr>) =
     (demo_world\<lparr>req := demo_req\<lparr>authorization := Some ''Bearer tok:u1''\<rparr>\<rparr>, Next) \<and>
   protect demo_env 0
     (demo_world\<lparr>req := demo_req\<lparr>authorization := Some ''Bearer tok:u1'', cookies := None\<rparr>\<rparr>) =
     (demo_world\<lparr>req := demo_req\<lparr>authorization := Some ''Bearer tok:u1'', cookies := None,
                                   req_user := Some (hide_password demo_user)\<rparr>,
                 res := demo_res\<lparr>locals_user := Some (hide_password demo_user)\<rparr>\<rparr>, Next) \<and>
   isLoggedIn demo_env 0
     (demo_world\<lparr>req := demo_req\<lparr>authorization := Some ''Bearer tok:u1'', cookies := None\<rparr>\<rparr>) =
     (demo_world\<lparr>req := demo_req\<lparr>authorization := Some ''Bearer tok:u1'', cookies := None\<rparr>\<rparr>,
      Unhandled ''TypeError'')"
  by (simp add: protect_def isLoggedIn_def protect_token_def truthy_def startsWith_def index_def
        findById_def findOne_def hide_password_def changedPasswordAfter_def demo_world_def
        demo_req_def demo_res_def demo_env_def demo_user_def demo_admin_def)

subsection \<open>Stale tokens\<close>

text \<open>
  Claim C4. A request carries a token that the verifier still accepts (its expiry has not
  passed). If the identity it names is stored with a password-changed timestamp later
  than the token's issued-at timestamp, \<open>protect\<close> rejects the request with status 401
  and attaches nothing. So it does after \<open>updatePassword\<close> has answered for that
  identity at a clock later than the token's issue, the new password differing from the
  stored verifier: the save stamps the identity with that clock.
\<close>

theorem protect_rejects_stale_token:
  assumes "protect_token (req w) = Inr (Some tok)" and "tok \<noteq> []"
    and "jwt_verify env now tok = Inr d"
  shows "(\<forall>u t. findById (decoded_id d) (users w) = Some u \<and> passwordChangedAt u = Some t \<and>
                iat d < t div 1000 \<longrightarrow>
            protect env now w =
              (w, NextErr (AppError ''User recently changed password! Please log in again.'' (Some 401)))) \<and>
         (\<forall>w0 t0 ru p u0.
            req_user (req w0) = Some ru \<and> decoded_id d = user_id ru \<and>
            body_password (req w0) = Some p \<and>
            findById_select_password (user_id ru) (users w0) = Some u0 \<and> password u0 \<noteq> Some p \<and>
            snd (updatePassword env t0 w0) = Sent \<and>
            users w = users (fst (updatePassword env t0 w0)) \<and>
            iat d < t0 div 1000 \<longrightarrow>
            protect env now w =
              (w, NextErr (AppError ''User recently changed password! Please log in again.'' (Some 401))))"
proof (intro conjI allI impI)
  fix u t
  assume "findById (decoded_id d) (users w) = Some u \<and> passwordChangedAt u = Some t \<and>
          iat d < t div 1000"
  with assms show "protect env now w =
      (w, NextErr (AppError ''User recently changed password! Please log in again.'' (Some 401)))"
    by (simp add: protect_stale)
next
  fix w0 :: world and t0 :: int and ru p u0
  assume h: "req_user (req w0) = Some ru \<and> decoded_id d = user_id ru \<and>
            body_password (req w0) = Some p \<and>
            findById_select_password (user_id ru) (users w0) = Some u0 \<and> password u0 \<noteq> Some p \<and>
            snd (updatePassword env t0 w0) = Sent \<and>
            users w = users (fst (updatePassword env t0 w0)) \<and>
            iat d < t0 div 1000"
  then obtain u where "findById (user_id ru) (users (fst (updatePassword env t0 w0))) = Some u"
    and "passwordChangedAt u = Some t0"
    using updatePassword_changes_timestamp [of w0 ru p env t0 u0] by blast
  with h have "findById (decoded_id d) (users w) = Some u" "passwordChangedAt u = Some t0"
    "iat d < t0 div 1000"
    by simp_all
  with assms show "protect env now w =
      (w, NextErr (AppError ''User recently changed password! Please log in again.'' (Some 401)))"
    by (rule protect_stale)
qed

theorem protect_rejects_stale_token_witness:
  "protect demo_env 2000000 (demo_world\<lparr>req := demo_req\<lparr>authorization := Some ''Bearer tok:u2''\<rparr>\<rparr>) =
     (demo_world\<lparr>req := demo_req\<lparr>authorization := Some ''Bearer tok:u2''\<rparr>\<rparr>,
      NextErr (AppError ''User recently changed password! Please log in again.'' (Some 401))) \<and>
   snd (updatePassword demo_env 3000000
          (demo_world\<lparr>req := demo_req\<lparr>req_user := Some demo_user,
                                        body_passwordCurrent := Some ''secret'',
                                        body_password := Some ''changed'',
                                        body_passwordConfirm := Some ''changed''\<rparr>\<rparr>)) = Sent \<and>
   snd (protect demo_env 3000001
          ((fst (updatePassword demo_env 3000000
              (demo_world\<lparr>req := demo_req\<lparr>req_user := Some demo_user,
                                            body_passwordCurrent := Some ''secret'',
                                            body_password := Some ''changed'',
                                            body_passwordConfirm := Some ''changed''\<rparr>\<rparr>)))
           \<lparr>req := demo_req\<lparr>cookies := Some \<lparr>jwt = Some ''tok:u1''\<rparr>\<rparr>\<rparr>)) =
     NextErr (AppError ''User recently changed password! Please log in again.'' (Some 401))"
proof -
  define W0 where "W0 = demo_world\<lparr>req := demo_req\<lparr>req_user := Some demo_user,
      body_passwordCurrent := Some ''secret'', body_password := Some ''changed'',
      body_passwordConfirm := Some ''changed''\<rparr>\<rparr>"
  define W where "W = (fst (updatePassword demo_env 3000000 W0))\<lparr>req := demo_req\<lparr>cookies := Some \<lparr>jwt = Some ''tok:u1''\<rparr>\<rparr>\<rparr>"
  have a: "protect demo_env 2000000 (demo_world\<lparr>req := demo_req\<lparr>authorization := Some ''Bearer tok:u2''\<rparr>\<rparr>) =
     (demo_world\<lparr>req := demo_req\<lparr>authorization := Some ''Bearer tok:u2''\<rparr>\<rparr>,
      NextErr (AppError ''User recently changed password! Please log in again.'' (Some 401)))"
    using protect_rejects_stale_token
          [of "demo_world\<lparr>req := demo_req\<lparr>authorization := Some ''Bearer tok:u2''\<rparr>\<rparr>" "''tok:u2''"
              demo_env 2000000 "\<lparr>decoded_id = ''u2'', iat = 1000\<rparr>", THEN conjunct1, rule_format,
           of "hide_password demo_admin" 5000000]
    by (simp add: protect_token_def truthy_def startsWith_def index_def findById_def findOne_def
          hide_password_def demo_world_def demo_req_def demo_env_def demo_user_def demo_admin_def)
  have s: "snd (updatePassword demo_env 3000000 W0) = Sent"
    by (simp add: W0_def updatePassword_def save_def correctPassword_def createSendToken_sent
          findById_select_password_def findOne_select_password_def Let_def demo_world_def
          demo_req_def demo_env_def demo_user_def demo_admin_def)
  have b: "protect demo_env 3000001 W =
     (W, NextErr (AppError ''User recently changed password! Please log in again.'' (Some 401)))"
    using protect_rejects_stale_token
          [of W "''tok:u1''" demo_env 3000001 "\<lparr>decoded_id = ''u1'', iat = 1000\<rparr>",
           THEN conjunct2, rule_format, of W0 demo_user "''changed''" demo_user 3000000] s
    by (simp add: W_def W0_def protect_token_def truthy_def findById_select_password_def
          findOne_select_password_def demo_world_def demo_req_def demo_env_def demo_user_def
          demo_admin_def)
  from a s b show ?thesis
    unfolding W_def W0_def by simp
qed

subsection \<open>The soft gate\<close>

text \<open>
  Claim C5, as the code has it. On a request whose \<^verbatim>\<open>req.cookies\<close> is
  \<^verbatim>\<open>undefined\<close>, \<open>isLoggedIn\<close> throws at line 153, before its \<^verbatim>\<open>try\<close>, and never
  calls \<^verbatim>\<open>next\<close>. On every request whose \<^verbatim>\<open>req.cookies\<close> exists it ends in
  \<^verbatim>\<open>next()\<close> and leaves the directory and the request as they were: with the cookie
  absent or empty, the token refused by the verifier (malformed, invalid or expired),
  the identity not found, or the password changed after the token was issued, the
  response is untouched; only when all four steps succeed is the resolved identity put
  in \<^verbatim>\<open>res.locals.user\<close>.
\<close>

theorem isLoggedIn_outcomes:
  "(cookies (req w) = None \<longrightarrow> isLoggedIn env now w = (w, Unhandled ''TypeError'')) \<and>
   (\<forall>c. cookies (req w) = Some c \<longrightarrow>
      snd (isLoggedIn env now w) = Next \<and>
      users (fst (isLoggedIn env now w)) = users w \<and>
      req (fst (isLoggedIn env now w)) = req w \<and>
      (\<not> truthy (jwt c) \<longrightarrow> isLoggedIn env now w = (w, Next)) \<and>
      (\<forall>t. jwt c = Some t \<longrightarrow>
         (\<forall>e. jwt_verify env now t = Inl e \<longrightarrow> isLoggedIn env now w = (w, Next)) \<and>
         (\<forall>d. jwt_verify env now t = Inr d \<longrightarrow>
            (findById (decoded_id d) (users w) = None \<longrightarrow> isLoggedIn env now w = (w, Next)) \<and>
            (\<forall>u. findById (decoded_id d) (users w) = Some u \<longrightarrow>
               (changedPasswordAfter u (iat d) \<longrightarrow> isLoggedIn env now w = (w, Next)) \<and>
               (\<not> changedPasswordAfter u (iat d) \<and> t \<noteq> [] \<longrightarrow>
                  isLoggedIn env now w = (w\<lparr>res := (res w)\<lparr>locals_user := Some u\<rparr>\<rparr>, Next))))))"
  by (simp add: isLoggedIn_def truthy_def split: option.split sum.split)

theorem isLoggedIn_outcomes_witness:
  "isLoggedIn demo_env 0 (demo_world\<lparr>req := demo_req\<lparr>cookies := None\<rparr>\<rparr>) =
     (demo_world\<lparr>req := demo_req\<lparr>cookies := None\<rparr>\<rparr>, Unhandled ''TypeError'') \<and>
   isLoggedIn demo_env 0 (demo_world\<lparr>req := demo_req\<lparr>cookies := Some \<lparr>jwt = Some ''tok:u1''\<rparr>\<rparr>\<rparr>) =
     (demo_world\<lparr>req := demo_req\<lparr>cookies := Some \<lparr>jwt = Some ''tok:u1''\<rparr>\<rparr>,
                 res := demo_res\<lparr>locals_user := Some (hide_password demo_user)\<rparr>\<rparr>, Next) \<and>
   snd (isLoggedIn demo_env 0 (demo_world\<lparr>req := demo_req\<lparr>cookies := Some \<lparr>jwt = Some ''tok:u2''\<rparr>\<rparr>\<rparr>)) = Next \<and>
   snd (isLoggedIn demo_env 0 (demo_world\<lparr>req := demo_req\<lparr>cookies := Some \<lparr>jwt = Some ''forged''\<rparr>\<rparr>\<rparr>)) = Next"
  using isLoggedIn_outcomes
          [of "demo_world\<lparr>req := demo_req\<lparr>cookies := None\<rparr>\<rparr>" demo_env 0]
        isLoggedIn_outcomes
          [of "demo_world\<lparr>req := demo_req\<lparr>cookies := Some \<lparr>jwt = Some ''tok:u1''\<rparr>\<rparr>\<rparr>" demo_env 0]
        isLoggedIn_outcomes
          [of "demo_world\<lparr>req := demo_req\<lparr>cookies := Some \<lparr>jwt = Some ''tok:u2''\<rparr>\<rparr>\<rparr>" demo_env 0]
        isLoggedIn_outcomes
          [of "demo_world\<lparr>req := demo_req\<lparr>cookies := Some \<lparr>jwt = Some ''forged''\<rparr>\<rparr>\<rparr>" demo_env 0]
  by (simp add: demo_world_def demo_req_def demo_res_def demo_env_def demo_user_def demo_admin_def
        findById_def findOne_def hide_password_def changedPasswordAfter_def)

subsection \<open>Reset tokens are single-use\<close>



subsection \<open>Authorization gate\<close>

text \<open>
  Claim C7. For every list of allowed roles, the middleware returned by \<open>restrictTo\<close>,
  applied to a request whose attached identity has a role in the list, calls
  \<^verbatim>\<open>next()\<close>; applied to a request whose attached role is not in the list, it calls
  \<^verbatim>\<open>next\<close> with an \<open>AppError\<close> of status 403.
\<close>

theorem restrictTo_role_membership:
  assumes "req_user (req w) = Some u"
  shows "(role u \<in> set roles \<longrightarrow> restrictTo roles w = (w, Next)) \<and>
         (role u \<notin> set roles \<longrightarrow>
            restrictTo roles w =
              (w, NextErr (AppError ''You do not have permission to perform this action'' (Some 403))))"
  using assms by (simp add: restrictTo_def)

theorem restrictTo_role_membership_witness:
  "restrictTo [''admin'', ''lead-guide''] (demo_world\<lparr>req := demo_req\<lparr>req_user := Some demo_admin\<rparr>\<rparr>)
     = (demo_world\<lparr>req := demo_req\<lparr>req_user := Some demo_admin\<rparr>\<rparr>, Next) \<and>
   restrictTo [''admin''] (demo_world\<lparr>req := demo_req\<lparr>req_user := Some demo_user\<rparr>\<rparr>)
     = (demo_world\<lparr>req := demo_req\<lparr>req_user := Some demo_user\<rparr>\<rparr>,
        NextErr (AppError ''You do not have permission to perform this action'' (Some 403)))"
  using restrictTo_role_membership
          [of "demo_world\<lparr>req := demo_req\<lparr>req_user := Some demo_admin\<rparr>\<rparr>" demo_admin
              "[''admin'', ''lead-guide'']"]
        restrictTo_role_membership
          [of "demo_world\<lparr>req := demo_req\<lparr>req_user := Some demo_user\<rparr>\<rparr>" demo_user "[''admin'']"]
  by (simp add: demo_world_def demo_req_def demo_admin_def demo_user_def)

subsection \<open>The password never leaves with the response\<close>

text \<open>
  Claim C8. \<open>createSendToken\<close> sets the password of the user it serializes to
  \<^verbatim>\<open>undefined\<close> on every call, and every response that \<open>signup\<close>, \<open>login\<close>,
  \<open>resetPassword\<close> or \<open>updatePassword\<close> sends is one it built: the user in the body has
  no password.
\<close>

theorem createSendToken_removes_password:
  "body (res (fst (createSendToken env now u code w))) =
     Some (UserBody ''success'' (signToken env now (user_id u)) (u\<lparr>password := None\<rparr>)) \<and>
   (snd (signup env now w) = Sent \<longrightarrow>
      (\<exists>tok u'. body (res (fst (signup env now w))) = Some (UserBody ''success'' tok u') \<and>
                password u' = None)) \<and>
   (snd (login env now w) = Sent \<longrightarrow>
      (\<exists>tok u'. body (res (fst (login env now w))) = Some (UserBody ''success'' tok u') \<and>
                password u' = None)) \<and>
   (snd (resetPassword env now w) = Sent \<longrightarrow>
      (\<exists>tok u'. body (res (fst (resetPassword env now w))) = Some (UserBody ''success'' tok u') \<and>
                password u' = None)) \<and>
   (snd (updatePassword env now w) = Sent \<longrightarrow>
      (\<exists>tok u'. body (res (fst (updatePassword env now w))) = Some (UserBody ''success'' tok u') \<and>
                password u' = None))"
proof (intro conjI)
  show "body (res (fst (createSendToken env now u code w))) =
     Some (UserBody ''success'' (signToken env now (user_id u)) (u\<lparr>password := None\<rparr>))"
    by (simp add: createSendToken_sent)
next
  show "snd (signup env now w) = Sent \<longrightarrow>
      (\<exists>tok u'. body (res (fst (signup env now w))) = Some (UserBody ''success'' tok u') \<and>
                password u' = None)"
    by (simp add: signup_def rejected_def createSendToken_sent split: sum.split prod.split)
next
  show "snd (login env now w) = Sent \<longrightarrow>
      (\<exists>tok u'. body (res (fst (login env now w))) = Some (UserBody ''success'' tok u') \<and>
                password u' = None)"
    by (simp add: login_def rejected_def createSendToken_sent split: sum.split option.split)
next
  show "snd (resetPassword env now w) = Sent \<longrightarrow>
      (\<exists>tok u'. body (res (fst (resetPassword env now w))) = Some (UserBody ''success'' tok u') \<and>
                password u' = None)"
    by (simp add: resetPassword_def rejected_def createSendToken_sent Let_def
          split: sum.split option.split prod.split)
next
  show "snd (updatePassword env now w) = Sent \<longrightarrow>
      (\<exists>tok u'. body (res (fst (updatePassword env now w))) = Some (UserBody ''success'' tok u') \<and>
                password u' = None)"
    by (simp add: updatePassword_def rejected_def createSendToken_sent Let_def
          split: sum.split option.split prod.split)
qed

theorem createSendToken_removes_password_witness:
  "snd (login demo_env 0 (demo_world\<lparr>req := demo_req\<lparr>body_email := Some ''ann@example.com'',
                                                     body_password := Some ''secret''\<rparr>\<rparr>)) = Sent \<and>
   body (res (fst (login demo_env 0 (demo_world\<lparr>req := demo_req\<lparr>body_email := Some ''ann@example.com'',
                                                     body_password := Some ''secret''\<rparr>\<rparr>)))) =
     Some (UserBody ''success'' ''tok:u1'' (demo_user\<lparr>password := None\<rparr>))"
  using createSendToken_removes_password
          [of demo_env 0 demo_user 200
              "demo_world\<lparr>req := demo_req\<lparr>body_email := Some ''ann@example.com'',
                                            body_password := Some ''secret''\<rparr>\<rparr>"]
  by (simp add: login_def createSendToken_sent signToken_def correctPassword_def truthy_def
        findOne_select_password_def demo_world_def demo_req_def demo_env_def demo_user_def
        demo_admin_def)

subsection \<open>A Bearer header without a token\<close>

text \<open>
  Claim C9. When the Authorization header starts with \<open>Bearer\<close> and holds no space
  (the header \<open>Bearer\<close> itself, for one), \<open>protect\<close> extracts no token and answers
  with the 401 error "not logged in", whatever the jwt cookie holds: the header branch
  was taken and the cookie is not read.
\<close>

theorem protect_bearer_without_token:
  assumes "authorization (req w) = Some h"
    and "startsWith h ''Bearer''"
    and "CHR '' '' \<notin> set h"
  shows "protect_token (req w) = Inr None \<and>
         protect env now w =
           (w, NextErr (AppError ''You are not logged in! Please log in to get access.'' (Some 401)))"
proof -
  from assms(2) have ne: "h \<noteq> []"
    by (auto simp: startsWith_def)
  from assms(3) have "str_split CHR '' '' h = [h]"
    by (rule str_split_no_sep)
  with assms(1,2) ne have tok: "protect_token (req w) = Inr None"
    by (simp add: protect_token_def truthy_def index_def)
  have "\<not> truthy None"
    by (simp add: truthy_def)
  with tok show ?thesis
    by (simp add: protect_not_truthy)
qed

theorem protect_bearer_without_token_witness:
  "protect demo_env 0
     (demo_world\<lparr>req := demo_req\<lparr>authorization := Some ''Bearer'', cookies := Some \<lparr>jwt = Some ''tok:u1''\<rparr>\<rparr>\<rparr>)
   = (demo_world\<lparr>req := demo_req\<lparr>authorization := Some ''Bearer'', cookies := Some \<lparr>jwt = Some ''tok:u1''\<rparr>\<rparr>\<rparr>,
      NextErr (AppError ''You are not logged in! Please log in to get access.'' (Some 401)))"
  using protect_bearer_without_token
          [of "demo_world\<lparr>req := demo_req\<lparr>authorization := Some ''Bearer'', cookies := Some \<lparr>jwt = Some ''tok:u1''\<rparr>\<rparr>\<rparr>"
              "''Bearer''" demo_env 0]
  by (simp add: demo_world_def demo_req_def startsWith_def)

subsection \<open>The cookie of logout\<close>

text \<open>
  Claim C10. \<open>logout\<close> overwrites the jwt cookie with the value \<open>loggedout\<close>, expiring
  ten seconds after the clock, with \<open>httpOnly\<close> set and no \<open>secure\<close> option, and it
  never reads the configuration; \<open>createSendToken\<close> under the production configuration
  sets \<open>secure\<close> on its cookie.
\<close>

theorem logout_cookie_not_secure:
  "cookies_set (res (fst (logout now w))) =
     cookies_set (res w) @
       [\<lparr>cookie_name = ''jwt'', cookie_value = ''loggedout'', expires = now + 10 * 1000,
         httpOnly = True, secure = None\<rparr>] \<and>
   snd (logout now w) = Sent \<and>
   statusCode (res (fst (logout now w))) = Some 200 \<and>
   cookies_set (res (fst (createSendToken (env\<lparr>NODE_ENV := ''production''\<rparr>) now u code w))) =
     cookies_set (res w) @
       [\<lparr>cookie_name = ''jwt'', cookie_value = signToken env now (user_id u),
         expires = now + JWT_COOKIE_EXPIRES_IN env * 24 * 60 * 60 * 1000,
         httpOnly = True, secure = Some True\<rparr>]"
  by (simp add: logout_def createSendToken_def res_cookie_def res_json_def Let_def signToken_def)

theorem logout_cookie_not_secure_witness:
  "map secure (cookies_set (res (fst (logout 5 demo_world)))) = [None] \<and>
   map secure (cookies_set (res (fst (createSendToken demo_env 5 demo_user 200 demo_world)))) = [Some True]"
  using logout_cookie_not_secure [of 5 demo_world demo_env demo_user 200]
  by (simp add: demo_world_def demo_res_def demo_env_def)

end
